theory Spec2Isabelle
  imports Main
begin

section \<open>Python values of the extractor\<close>

text \<open>
  The exceptions the modelled code can raise. A function that may raise returns
  \<open>error + 'a\<close>, with \<open>Inl\<close> the exception that leaves the function.
\<close>

datatype error = KeyError | AttributeError | TypeError | ValueError | IndexError | IOError

text \<open>
  An entry of a dictionary loaded from JSON: the key is not in the dictionary
  (\<open>Absent\<close>), it is there with the value \<open>null\<close>, which Python reads as
  \<open>None\<close> (\<open>JNull\<close>), or it is there with a value (\<open>Present\<close>).
\<close>

datatype 'a field = Absent | JNull | Present 'a

text \<open>
  The source reads every optional key as
  \<^verbatim>\<open>try: x = d[key]  except NameError: x = None\<close>.
  A dictionary lookup of a key that is not there raises \<open>KeyError\<close>, which
  \<open>except NameError\<close> does not catch: the handler never runs and the
  \<open>KeyError\<close> leaves the function. \<open>subscript\<close> is that statement: the
  value bound to \<open>x\<close> (\<open>None\<close> only for a JSON \<open>null\<close>), or the error.
\<close>

definition subscript :: "'a field \<Rightarrow> error + 'a option" where
  "subscript f = (case f of Absent \<Rightarrow> Inl KeyError | JNull \<Rightarrow> Inr None | Present v \<Rightarrow> Inr (Some v))"

subsection \<open>Strings\<close>

text \<open>
  A string of the model is a list of characters with the codes 0 to 255.
  The strings of the structure file are unicode strings (\<open>json.load\<close>), and
  so is every node text that is not plain ASCII. The characters
  \<open>strip()\<close> removes from both ends of a unicode string, as far as they
  have a code below 256: tab, newline, VT, FF, CR, the four separators
  U+001C to U+001F, space, U+0085 and U+00A0. On a byte string
  \<open>strip()\<close> removes the first five and the space only; the byte strings
  the extractor strips are serialised XML text, in which none of the others
  can occur. Unicode whitespace with a code above 255 has no character in
  the model.
\<close>

definition whitespace :: "char list" where
  "whitespace =
     [CHR 0x09, CHR 0x0A, CHR 0x0B, CHR 0x0C, CHR 0x0D,
      CHR 0x1C, CHR 0x1D, CHR 0x1E, CHR 0x1F, CHR '' '', CHR 0x85, CHR 0xA0]"

definition is_space :: "char \<Rightarrow> bool" where
  "is_space c = (c \<in> set whitespace)"

definition strip :: "string \<Rightarrow> string" where
  "strip s = rev (dropWhile is_space (rev (dropWhile is_space s)))"

text \<open>\<open>s.split(" ")\<close>: the pieces between single spaces, empty pieces kept.\<close>

fun split_sp :: "string \<Rightarrow> string list" where
  "split_sp [] = [[]]"
| "split_sp (c # cs) =
     (if c = CHR '' '' then [] # split_sp cs
      else (case split_sp cs of [] \<Rightarrow> [[c]] | w # ws \<Rightarrow> (c # w) # ws))"

fun startswith :: "string \<Rightarrow> string \<Rightarrow> bool" where
  "startswith [] s = True"
| "startswith (a # as) [] = False"
| "startswith (a # as) (c # cs) = (a = c \<and> startswith as cs)"

text \<open>\<open>contains sub s\<close> is Python's \<open>sub in s\<close> on strings.\<close>

fun contains :: "string \<Rightarrow> string \<Rightarrow> bool" where
  "contains sub [] = (sub = [])"
| "contains sub (c # cs) = (startswith sub (c # cs) \<or> contains sub cs)"

text \<open>\<open>str.lower()\<close> of a Python 2 byte string: the ASCII capitals change.\<close>

definition lower_char :: "char \<Rightarrow> char" where
  "lower_char c =
     (case map_of (zip ''ABCDEFGHIJKLMNOPQRSTUVWXYZ'' ''abcdefghijklmnopqrstuvwxyz'') c of
        None \<Rightarrow> c | Some d \<Rightarrow> d)"

definition lower :: "string \<Rightarrow> string" where
  "lower s = map lower_char s"

section \<open>The XML library\<close>

text \<open>
  The extractor works on the nodes of an XML library through a handful of
  operations. The library is not part of the program: it is a parameter of the
  model, a record of the operations the source calls on a node of type \<open>'n\<close>.

  \<open>get_nodes_from_xpath\<close> returns either the node it was given or the result
  of an XPath query, and the callers use the two alike; \<open>'n nodes\<close> is that
  value.
\<close>

datatype 'n nodes = Element 'n | Matches "'n list"

record 'n xml_lib =
  lib_xpath :: "'n \<Rightarrow> string \<Rightarrow> 'n list"
  lib_children :: "'n nodes \<Rightarrow> error + 'n list"
  lib_iter :: "'n \<Rightarrow> 'n list"
  lib_text :: "'n \<Rightarrow> string option"
  lib_get :: "'n \<Rightarrow> string \<Rightarrow> string option"
  lib_tostring :: "'n nodes \<Rightarrow> error + string"

text \<open>
  \<^item> \<open>lib_xpath n p\<close> is \<open>n.xpath(p)\<close>, the matches in document order;
  \<^item> \<open>lib_children x\<close> is the attribute \<open>x.children\<close>, or the error of reading it;
  \<^item> \<open>lib_iter n\<close> is what \<open>for c in n\<close> runs through;
  \<^item> \<open>lib_text n\<close> is \<open>n.text\<close>, \<open>None\<close> for a node without text;
  \<^item> \<open>lib_get n a\<close> is \<open>n.get(a)\<close>, \<open>None\<close> when \<open>n\<close> has no attribute \<open>a\<close>;
  \<^item> \<open>lib_tostring x\<close> is \<open>etree.tostring(x, method="text")\<close>.
\<close>

text \<open>\<open>for c in x\<close> over a value of \<open>get_nodes_from_xpath\<close>.\<close>

definition iterate :: "'n xml_lib \<Rightarrow> 'n nodes \<Rightarrow> 'n list" where
  "iterate L x = (case x of Element n \<Rightarrow> lib_iter L n | Matches ns \<Rightarrow> ns)"

definition get_nodes_from_xpath :: "'n xml_lib \<Rightarrow> string \<Rightarrow> 'n \<Rightarrow> 'n nodes" where
  "get_nodes_from_xpath L xpath nodes =
     (if length (strip xpath) = 0 then Element nodes
      else Matches (lib_xpath L nodes xpath))"

section \<open>Metadata extraction\<close>

text \<open>
  A metadata rule of the structure file, a dictionary with the keys
  \<open>xpaths\<close>, \<open>attr\<close> and \<open>propertyName\<close>, and the \<open>Metadata\<close> object built
  from it.
\<close>

record metadata_spec =
  spec_xpaths :: "string list field"
  spec_attr :: "string field"
  spec_propertyName :: "string option"

datatype metadata =
  Metadata (metadata_value: string) (property_name: string) (metadata_specification: metadata_spec)

text \<open>
  The loop of \<open>get_xpath_text\<close> over the matches. Its body serialises
  \<open>nodes\<close>, the whole list of matches, not the loop variable.
\<close>

fun get_xpath_text_loop ::
  "'n xml_lib \<Rightarrow> 'n list \<Rightarrow> 'n list \<Rightarrow> string list \<Rightarrow> error + string list" where
  "get_xpath_text_loop L nodes [] values = Inr values"
| "get_xpath_text_loop L nodes (node # rest) values =
     (case lib_tostring L (Matches nodes) of
        Inl e \<Rightarrow> Inl e
      | Inr s \<Rightarrow>
          (let v = strip s in
           if length v > 0 then get_xpath_text_loop L nodes rest (values @ [v])
           else get_xpath_text_loop L nodes rest values))"

definition get_xpath_text :: "'n xml_lib \<Rightarrow> string \<Rightarrow> 'n \<Rightarrow> error + string list" where
  "get_xpath_text L xpath_pattern node =
     (if length (strip xpath_pattern) = 0 then
        (case lib_tostring L (Element node) of
           Inl e \<Rightarrow> Inl e
         | Inr s \<Rightarrow> Inr ([] @ [s]))
      else
        (let nodes = lib_xpath L node xpath_pattern in
         get_xpath_text_loop L nodes nodes []))"

text \<open>
  \<open>node.get(attribute).split(" ")\<close>: \<open>get\<close> returns \<open>None\<close> for an attribute
  the node does not have, and \<open>None\<close> has no \<open>split\<close>.
\<close>

definition attribute_values :: "'n xml_lib \<Rightarrow> 'n \<Rightarrow> string \<Rightarrow> error + string list" where
  "attribute_values L node attribute =
     (case lib_get L node attribute of
        None \<Rightarrow> Inl AttributeError
      | Some a \<Rightarrow> Inr (split_sp a))"

fun get_xpath_attribute_loop ::
  "'n xml_lib \<Rightarrow> string \<Rightarrow> 'n list \<Rightarrow> string list \<Rightarrow> error + string list" where
  "get_xpath_attribute_loop L attribute [] values = Inr values"
| "get_xpath_attribute_loop L attribute (node # rest) values =
     (case attribute_values L node attribute of
        Inl e \<Rightarrow> Inl e
      | Inr vals \<Rightarrow>
          if length vals > 0 then get_xpath_attribute_loop L attribute rest (values @ vals)
          else get_xpath_attribute_loop L attribute rest values)"

definition get_xpath_attribute ::
  "'n xml_lib \<Rightarrow> string \<Rightarrow> string \<Rightarrow> 'n \<Rightarrow> error + string list" where
  "get_xpath_attribute L xpath_pattern attribute node =
     (if length (strip xpath_pattern) = 0 then
        (case attribute_values L node attribute of
           Inl e \<Rightarrow> Inl e
         | Inr vals \<Rightarrow> if length vals > 0 then Inr ([] @ vals) else Inr [])
      else get_xpath_attribute_loop L attribute (lib_xpath L node xpath_pattern) [])"

text \<open>
  \<open>get_metadata\<close>: the loop over the extracted values, the loop over the
  XPaths of one rule, and the loop over the rules. \<open>spec["propertyName"]\<close> is
  read once per value.
\<close>

fun get_metadata_values ::
  "metadata_spec \<Rightarrow> string list \<Rightarrow> metadata list \<Rightarrow> error + metadata list" where
  "get_metadata_values spec [] metadata = Inr metadata"
| "get_metadata_values spec (val # rest) metadata =
     (case spec_propertyName spec of
        None \<Rightarrow> Inl KeyError
      | Some pn \<Rightarrow> get_metadata_values spec rest (metadata @ [Metadata val pn spec]))"

fun get_metadata_xpaths ::
  "'n xml_lib \<Rightarrow> 'n \<Rightarrow> metadata_spec \<Rightarrow> string option \<Rightarrow> string list \<Rightarrow> metadata list
     \<Rightarrow> error + metadata list" where
  "get_metadata_xpaths L node spec attribute [] metadata = Inr metadata"
| "get_metadata_xpaths L node spec attribute (xpath # rest) metadata =
     (case (case attribute of
              Some a \<Rightarrow> get_xpath_attribute L xpath a node
            | None \<Rightarrow> get_xpath_text L xpath node) of
        Inl e \<Rightarrow> Inl e
      | Inr extracted \<Rightarrow>
          (case get_metadata_values spec extracted metadata of
             Inl e \<Rightarrow> Inl e
           | Inr metadata' \<Rightarrow> get_metadata_xpaths L node spec attribute rest metadata'))"

fun get_metadata_specs ::
  "'n xml_lib \<Rightarrow> 'n \<Rightarrow> metadata_spec list \<Rightarrow> metadata list \<Rightarrow> error + metadata list" where
  "get_metadata_specs L node [] metadata = Inr metadata"
| "get_metadata_specs L node (spec # rest) metadata =
     (case subscript (spec_xpaths spec) of
        Inl e \<Rightarrow> Inl e
      | Inr xpaths \<Rightarrow>
          (case subscript (spec_attr spec) of
             Inl e \<Rightarrow> Inl e
           | Inr attribute \<Rightarrow>
               (case xpaths of
                  None \<Rightarrow> get_metadata_specs L node rest metadata
                | Some xs \<Rightarrow>
                    (case get_metadata_xpaths L node spec attribute xs metadata of
                       Inl e \<Rightarrow> Inl e
                     | Inr metadata' \<Rightarrow> get_metadata_specs L node rest metadata'))))"

definition get_metadata ::
  "'n xml_lib \<Rightarrow> metadata_spec list option \<Rightarrow> 'n \<Rightarrow> error + metadata list" where
  "get_metadata L metadata_structure node =
     (case metadata_structure of
        None \<Rightarrow> Inr []
      | Some specs \<Rightarrow> get_metadata_specs L node specs [])"

section \<open>Sentences and units\<close>

text \<open>
  A structure rule of the structure file: a dictionary with the keys
  \<open>structureName\<close>, \<open>xpaths\<close>, \<open>metadata\<close> and \<open>units\<close>. The source reads the
  first two with a plain lookup (\<open>None\<close> here: the key is not there) and the
  last two under \<open>try ... except NameError\<close>.
\<close>

datatype docstructure =
  Structure (structureName: "string option") (xpaths: "string list option")
    (metadata_rules: "metadata_spec list field") (units_rules: "docstructure list field")

text \<open>
  A \<open>Sentence\<close> holds its text and its metadata. \<open>get_sentences\<close> appends the
  list returned by \<open>get_metadata\<close> as one element per node, so the metadata
  of a sentence is a list of lists.
\<close>

datatype sentence =
  Sentence (sentence_of: string) (metadata_of: "metadata list list")

datatype docunit =
  Unit (metadata_of_unit: "metadata list") (units_of_unit: "docunit list")
    (sentences_of_unit: "sentence list") (name_of_unit: string)

text \<open>
  The tokenizer \<open>self.t\<close> is a parameter: \<open>t text\<close> is the list of the texts of
  the sentences that \<open>self.t.tokenize(text)\<close> returns, or the error it raises.
\<close>

type_synonym tokenizer = "string \<Rightarrow> error + string list"

text \<open>The loop of \<open>get_sentences\<close> over the nodes of one XPath.\<close>

fun get_sentences_nodes ::
  "'n xml_lib \<Rightarrow> metadata_spec list option \<Rightarrow> 'n list \<Rightarrow> string \<times> metadata list list
     \<Rightarrow> error + string \<times> metadata list list" where
  "get_sentences_nodes L metadata_structure [] acc = Inr acc"
| "get_sentences_nodes L metadata_structure (sentence_node # rest) (sentence_text, sentence_metadata) =
     (case lib_text L sentence_node of
        None \<Rightarrow> Inl AttributeError
      | Some txt \<Rightarrow>
          (case get_metadata L metadata_structure sentence_node of
             Inl e \<Rightarrow> Inl e
           | Inr m \<Rightarrow>
               get_sentences_nodes L metadata_structure rest
                 (sentence_text @ strip txt @ [CHR 0x0A], sentence_metadata @ [m])))"

text \<open>The loop of \<open>get_sentences\<close> over the XPaths of the rule.\<close>

fun get_sentences_xpaths ::
  "'n xml_lib \<Rightarrow> metadata_spec list option \<Rightarrow> 'n \<Rightarrow> string list \<Rightarrow> string \<times> metadata list list
     \<Rightarrow> error + string \<times> metadata list list" where
  "get_sentences_xpaths L metadata_structure parent_node [] acc = Inr acc"
| "get_sentences_xpaths L metadata_structure parent_node (xpath # rest) acc =
     (case get_sentences_nodes L metadata_structure
             (iterate L (get_nodes_from_xpath L xpath parent_node)) acc of
        Inl e \<Rightarrow> Inl e
      | Inr acc' \<Rightarrow> get_sentences_xpaths L metadata_structure parent_node rest acc')"

text \<open>
  The loop over the tokenized sentences. \<open>string.split(" ", sentence.sentence)\<close>
  splits the string \<open>" "\<close> at the separator \<open>sentence.sentence\<close> and raises
  \<open>ValueError\<close> for an empty separator; its result is only counted.
\<close>

fun get_sentences_tokenized ::
  "string list \<Rightarrow> metadata list list \<Rightarrow> sentence list \<Rightarrow> error + sentence list" where
  "get_sentences_tokenized [] sentence_metadata sentences = Inr sentences"
| "get_sentences_tokenized (s # rest) sentence_metadata sentences =
     (if s = [] then Inl ValueError
      else get_sentences_tokenized rest sentence_metadata
             (sentences @ [Sentence s sentence_metadata]))"

definition get_sentences ::
  "'n xml_lib \<Rightarrow> tokenizer \<Rightarrow> docstructure \<Rightarrow> 'n \<Rightarrow> bool \<Rightarrow> error + sentence list" where
  "get_sentences L t structure parent_node tokenize =
     (case xpaths structure of
        None \<Rightarrow> Inl KeyError
      | Some unit_xpaths \<Rightarrow>
          (case subscript (metadata_rules structure) of
             Inl e \<Rightarrow> Inl e
           | Inr metadata_structure \<Rightarrow>
               (case get_sentences_xpaths L metadata_structure parent_node unit_xpaths ([], []) of
                  Inl e \<Rightarrow> Inl e
                | Inr (sentence_text, sentence_metadata) \<Rightarrow>
                    if tokenize then
                      (case t sentence_text of
                         Inl e \<Rightarrow> Inl e
                       | Inr sents \<Rightarrow> get_sentences_tokenized sents sentence_metadata [])
                    else Inr ([] @ [Sentence sentence_text sentence_metadata]))))"

text \<open>
  \<open>extract_unit_information\<close> with its three loops: over the XPaths of the
  rule, over \<open>nodes.children\<close>, and over the child rules. In the last one a
  child rule whose name contains \<open>sentence\<close> takes the branch that calls
  \<open>extract_unit_information\<close> and extends \<open>children\<close>; every other child rule
  takes the branch that calls \<open>get_sentences\<close> and assigns \<open>sents\<close>.
\<close>

function (sequential) extract_unit_information ::
      "'n xml_lib \<Rightarrow> tokenizer \<Rightarrow> docstructure \<Rightarrow> 'n \<Rightarrow> error + docunit list"
  and extract_unit_xpaths ::
      "'n xml_lib \<Rightarrow> tokenizer \<Rightarrow> docstructure \<Rightarrow> 'n \<Rightarrow> string list \<Rightarrow> docunit list \<Rightarrow> error + docunit list"
  and extract_unit_nodes ::
      "'n xml_lib \<Rightarrow> tokenizer \<Rightarrow> docstructure \<Rightarrow> string \<Rightarrow> 'n list \<Rightarrow> docunit list \<Rightarrow> error + docunit list"
  and extract_unit_children ::
      "'n xml_lib \<Rightarrow> tokenizer \<Rightarrow> docstructure list \<Rightarrow> 'n \<Rightarrow> sentence list \<times> docunit list
         \<Rightarrow> error + sentence list \<times> docunit list" where
  "extract_unit_information L t structure parent_node =
     (case xpaths structure of
        None \<Rightarrow> Inl KeyError
      | Some unit_xpaths \<Rightarrow> extract_unit_xpaths L t structure parent_node unit_xpaths [])"
| "extract_unit_xpaths L t structure parent_node [] units = Inr units"
| "extract_unit_xpaths L t structure parent_node (xpath # rest) units =
     (let nodes = get_nodes_from_xpath L xpath parent_node in
      case structureName structure of
        None \<Rightarrow> Inl KeyError
      | Some struc_name \<Rightarrow>
          (case lib_children L nodes of
             Inl e \<Rightarrow> Inl e
           | Inr cs \<Rightarrow>
               (case extract_unit_nodes L t structure struc_name cs units of
                  Inl e \<Rightarrow> Inl e
                | Inr units' \<Rightarrow> extract_unit_xpaths L t structure parent_node rest units')))"
| "extract_unit_nodes L t structure struc_name [] units = Inr units"
| "extract_unit_nodes L t (Structure nm xs md us) struc_name (node # rest) units =
     (case subscript md of
        Inl e \<Rightarrow> Inl e
      | Inr metadata_structure \<Rightarrow>
          (case get_metadata L metadata_structure node of
             Inl e \<Rightarrow> Inl e
           | Inr unit_metadata \<Rightarrow>
               (case (case us of
                        Absent \<Rightarrow> Inl KeyError
                      | JNull \<Rightarrow> Inr ([], [])
                      | Present child_unit_structures \<Rightarrow>
                          extract_unit_children L t child_unit_structures node ([], [])) of
                  Inl e \<Rightarrow> Inl e
                | Inr (sents, children) \<Rightarrow>
                    extract_unit_nodes L t (Structure nm xs md us) struc_name rest
                      (units @ [Unit unit_metadata children sents struc_name]))))"
| "extract_unit_children L t [] node acc = Inr acc"
| "extract_unit_children L t (child_structure # rest) node (sents, children) =
     (case structureName child_structure of
        None \<Rightarrow> Inl KeyError
      | Some child_type \<Rightarrow>
          if contains ''sentence'' child_type then
            (case extract_unit_information L t child_structure node of
               Inl e \<Rightarrow> Inl e
             | Inr child_units \<Rightarrow>
                 extract_unit_children L t rest node (sents, children @ child_units))
          else
            (case get_sentences L t child_structure node True of
               Inl e \<Rightarrow> Inl e
             | Inr sents' \<Rightarrow> extract_unit_children L t rest node (sents', children)))"
  by pat_completeness auto

termination
  by (relation "inv_image (less_than <*lex*> less_than <*lex*> less_than)
     (\<lambda>x. case x of
        Inl (Inl (L, t, s, p)) \<Rightarrow> (size s, 3::nat, 0::nat)
      | Inl (Inr (L, t, s, p, ps, us)) \<Rightarrow> (size s, 2, length ps)
      | Inr (Inl (L, t, s, nm, ns, us)) \<Rightarrow> (size s, 1, length ns)
      | Inr (Inr (L, t, cs, n, acc)) \<Rightarrow> (size_list size cs, 0, 0))")
    auto

section \<open>The collection processor\<close>

subsection \<open>Built-in conversions\<close>

text \<open>\<open>str(n)\<close> of an integer: its decimal digits, with a sign when negative.\<close>

fun str_nat :: "nat \<Rightarrow> string" where
  "str_nat n =
     (if n < 10 then [''0123456789'' ! n]
      else str_nat (n div 10) @ [''0123456789'' ! (n mod 10)])"

declare str_nat.simps [simp del]

definition str_int :: "int \<Rightarrow> string" where
  "str_int i = (if i < 0 then CHR ''-'' # str_nat (nat (- i)) else str_nat (nat i))"

text \<open>
  \<open>int(s)\<close> of a string: surrounding whitespace is dropped, one sign is
  allowed, and at least one decimal digit must follow; anything else raises
  \<open>ValueError\<close>.
\<close>

fun digits_value :: "string \<Rightarrow> nat \<Rightarrow> nat option" where
  "digits_value [] acc = Some acc"
| "digits_value (c # cs) acc =
     (case map_of (zip ''0123456789'' [0, 1, 2, 3, 4, 5, 6, 7, 8, 9]) c of
        None \<Rightarrow> None
      | Some d \<Rightarrow> digits_value cs (10 * acc + d))"

definition py_int :: "string \<Rightarrow> error + int" where
  "py_int s =
     (let t = strip s;
          negative = (t \<noteq> [] \<and> hd t = CHR ''-'');
          ds = (if t \<noteq> [] \<and> (hd t = CHR ''-'' \<or> hd t = CHR ''+'') then tl t else t)
      in if ds = [] then Inl ValueError
         else (case digits_value ds 0 of
                 None \<Rightarrow> Inl ValueError
               | Some n \<Rightarrow> Inr (if negative then - int n else int n)))"

subsection \<open>State and collaborators\<close>

text \<open>
  The modes \<open>logger.log\<close> is called with: the source names
  \<open>logger.REPLACE\<close> and \<open>logger.UPDATE\<close> and no other.
\<close>

datatype log_mode = REPLACE | UPDATE

text \<open>
  What a run of the processor changes: the progress ledger (a value of type
  \<open>'l\<close>, read and written through the logger only), the paths handed to
  \<open>extractor.extract\<close> and the documents handed to
  \<open>document_parser.parse_document\<close>, each in call order.
\<close>

record 'l pstate =
  ledger :: 'l
  extracted :: "string list"
  parsed_documents :: "int list"

text \<open>
  The modules the processor calls are not among the sources; they are the
  parameters of the model. A document of the database is its \<open>id\<close>.
  \<^item> \<open>logger_get\<close>, \<open>logger_log\<close>: \<open>logger.get(key)\<close> and \<open>logger.log(key, value, mode)\<close>;
  \<^item> \<open>listdir\<close>, \<open>splitext\<close>, \<open>path_join\<close>: \<open>os.listdir\<close>, \<open>os.path.splitext\<close>, \<open>os.path.join\<close>;
  \<^item> \<open>structure_extractor f\<close>: the call
    \<open>structureextractor.StructureExtractor(self.str_proc, f)\<close>, which opens and
    loads the structure file \<open>f\<close>: the error it raises, or the extractor. An
    extractor is its method \<open>extract\<close>: \<open>None\<close> when \<open>extractor.extract(path)\<close>
    returns (its result is bound to \<open>docs\<close> and not used), or the error it
    raises;
  \<^item> \<open>query_all\<close>: the list \<open>Document.query.all()\<close> returns, as ids, in its order;
  \<^item> \<open>parse_document d\<close>: \<open>None\<close> when the parser returns, or the error it raises;
  \<^item> \<open>database_reset\<close>, \<open>counter_count\<close>: \<open>database.reset()\<close> and \<open>counter.count()\<close>;
  \<^item> the three entries of \<open>app.config\<close> the processor reads.
\<close>

record 'l env =
  logger_get :: "'l \<Rightarrow> string \<Rightarrow> string"
  logger_log :: "'l \<Rightarrow> string \<Rightarrow> string \<Rightarrow> log_mode \<Rightarrow> 'l"
  listdir :: "string \<Rightarrow> string list"
  splitext :: "string \<Rightarrow> string \<times> string"
  path_join :: "string \<Rightarrow> string \<Rightarrow> string"
  structure_extractor :: "string \<Rightarrow> error + (string \<Rightarrow> error option)"
  query_all :: "int list"
  parse_document :: "int \<Rightarrow> error option"
  database_reset :: "'l pstate \<Rightarrow> 'l pstate"
  counter_count :: "'l pstate \<Rightarrow> error option \<times> 'l pstate"
  GRAMMATICAL_PROCESSING :: bool
  WORD_TO_WORD_SIMILARITY :: bool
  PART_OF_SPEECH_TAGGING :: bool

text \<open>\<open>logger.log(key, value, mode)\<close> as a step of the state.\<close>

definition log_to :: "'l env \<Rightarrow> string \<Rightarrow> string \<Rightarrow> log_mode \<Rightarrow> 'l pstate \<Rightarrow> 'l pstate" where
  "log_to E key v mode st = st\<lparr>ledger := logger_log E (ledger st) key v mode\<rparr>"

subsection \<open>The stages\<close>

text \<open>
  The loop of \<open>extract_record_metadata\<close> over \<open>contents\<close>, with the extractor
  built before it. A function of the processor returns the error that left
  it, if any, and the state it left.
\<close>

fun extract_record_loop ::
  "'l env \<Rightarrow> (string \<Rightarrow> error option) \<Rightarrow> string \<Rightarrow> string list \<Rightarrow> int \<Rightarrow> 'l pstate
     \<Rightarrow> error option \<times> 'l pstate" where
  "extract_record_loop E extractor collection_dir [] num_files_done st = (None, st)"
| "extract_record_loop E extractor collection_dir (filename # rest) num_files_done st =
     (if \<not> contains (''['' @ str_int num_files_done @ '']'')
              (logger_get E (ledger st) ''text_and_metadata_recorded'')
      then
        (case filename of
           [] \<Rightarrow> (Some IndexError, st)
         | c # cs \<Rightarrow>
             if \<not> c = CHR ''.'' then
               (let st1 = log_to E ''finished_recording_text_and_metadata'' ''false'' REPLACE st;
                    path = path_join E collection_dir filename;
                    st2 = st1\<lparr>extracted := extracted st1 @ [path]\<rparr>
                in case extractor path of
                     Some e \<Rightarrow> (Some e, st2)
                   | None \<Rightarrow>
                       extract_record_loop E extractor collection_dir rest (num_files_done + 1)
                         (log_to E ''text_and_metadata_recorded'' (str_int num_files_done) UPDATE st2))
             else extract_record_loop E extractor collection_dir rest (num_files_done + 1) st)
      else extract_record_loop E extractor collection_dir rest (num_files_done + 1) st)"

definition extract_record_metadata ::
  "'l env \<Rightarrow> string \<Rightarrow> string \<Rightarrow> string \<Rightarrow> 'l pstate \<Rightarrow> error option \<times> 'l pstate" where
  "extract_record_metadata E collection_dir docstruc_filename filename_extension st =
     (case structure_extractor E docstruc_filename of
        Inl e \<Rightarrow> (Some e, st)
      | Inr extractor \<Rightarrow>
          (let contents = filter (\<lambda>filename. lower (snd (splitext E filename)) = lower filename_extension)
                            (listdir E collection_dir)
           in case extract_record_loop E extractor collection_dir contents 1 st of
                (Some e, st') \<Rightarrow> (Some e, st')
              | (None, st') \<Rightarrow>
                  (None, log_to E ''finished_recording_text_and_metadata'' ''true'' REPLACE st')))"

text \<open>The loop of \<open>parse_documents\<close>; \<open>latest_id\<close> is read once, before it.\<close>

fun parse_documents_loop ::
  "'l env \<Rightarrow> int \<Rightarrow> int list \<Rightarrow> 'l pstate \<Rightarrow> error option \<times> 'l pstate" where
  "parse_documents_loop E latest_id [] st = (None, st)"
| "parse_documents_loop E latest_id (document_id # rest) st =
     (if document_id > latest_id then
        (let st1 = st\<lparr>parsed_documents := parsed_documents st @ [document_id]\<rparr>
         in case parse_document E document_id of
              Some e \<Rightarrow> (Some e, st1)
            | None \<Rightarrow>
                parse_documents_loop E latest_id rest
                  (log_to E ''latest_parsed_document_id'' (str_int document_id) REPLACE
                     (log_to E ''finished_grammatical_processing'' ''false'' REPLACE st1)))
      else parse_documents_loop E latest_id rest st)"

definition parse_documents :: "'l env \<Rightarrow> 'l pstate \<Rightarrow> error option \<times> 'l pstate" where
  "parse_documents E st =
     (let documents = query_all E;
          latest = logger_get E (ledger st) ''latest_parsed_document_id'';
          latest' = (if length latest = 0 then ''0'' else latest)
      in case py_int latest' of
           Inl e \<Rightarrow> (Some e, st)
         | Inr latest_id \<Rightarrow>
             (case parse_documents_loop E latest_id documents st of
                (Some e, st') \<Rightarrow> (Some e, st')
              | (None, st') \<Rightarrow> counter_count E st'))"

text \<open>
  \<open>process\<close>. The last two stages (TF-IDF and word similarity) read their
  flags and write only to the Python log, so they change nothing here.
\<close>

definition process ::
  "'l env \<Rightarrow> string \<Rightarrow> string \<Rightarrow> string \<Rightarrow> bool \<Rightarrow> 'l pstate \<Rightarrow> error option \<times> 'l pstate" where
  "process E collection_dir docstruc_filename filename_extension start_from_scratch st0 =
     (let st = (if start_from_scratch then database_reset E st0 else st0)
      in case (if \<not> contains ''true'' (logger_get E (ledger st) ''finished_recording_text_and_metadata'')
               then extract_record_metadata E collection_dir docstruc_filename filename_extension st
               else (None, st)) of
           (Some e, st1) \<Rightarrow> (Some e, st1)
         | (None, st1) \<Rightarrow>
             (case (if (GRAMMATICAL_PROCESSING E \<or>
                        (WORD_TO_WORD_SIMILARITY E \<and> PART_OF_SPEECH_TAGGING E)) \<and>
                       \<not> contains ''true''
                           (lower (logger_get E (ledger st1) ''finished_grammatical_processing''))
                    then parse_documents E st1
                    else (None, st1)) of
                (Some e, st2) \<Rightarrow> (Some e, st2)
              | (None, st2) \<Rightarrow>
                  (None,
                   if \<not> contains ''true'' (lower (logger_get E (ledger st2) ''word_counts_done''))
                   then log_to E ''word_counts_done'' ''true'' REPLACE st2
                   else st2)))"

subsection \<open>The ledger of the specification\<close>

text \<open>
  Modelled from the spec: the module \<open>logger\<close> is not among the sources. The
  specification describes the ledger as a store from keys to strings, with
  \<open>get(key)\<close> returning the empty string for a key that is not there.
\<close>

definition spec_get :: "(string \<Rightarrow> string option) \<Rightarrow> string \<Rightarrow> string" where
  "spec_get m key = (case m key of None \<Rightarrow> [] | Some v \<Rightarrow> v)"

text \<open>
  Modelled from the spec: \<open>logger.log\<close> is not among the sources. The
  specification says per key how the ledger is written. The stage flags and
  \<open>latest_parsed_document_id\<close>, which the source logs with \<open>logger.REPLACE\<close>,
  hold the value last logged. \<open>text_and_metadata_recorded\<close>, the one key the
  source logs with \<open>logger.UPDATE\<close>, accumulates the completion markers
  \<open>[index]\<close>, one appended per file; the source hands the index to the
  logger, so the marker is formed there.
\<close>

definition spec_log ::
  "(string \<Rightarrow> string option) \<Rightarrow> string \<Rightarrow> string \<Rightarrow> log_mode \<Rightarrow> (string \<Rightarrow> string option)" where
  "spec_log m key v mode =
     (case mode of
        REPLACE \<Rightarrow> m(key \<mapsto> v)
      | UPDATE \<Rightarrow> m(key \<mapsto> spec_get m key @ ''['' @ v @ '']''))"


section \<open>An element tree for concrete runs\<close>

text \<open>
  The concrete runs below need one library to run on. \<open>tree_lib\<close> is a
  small element tree: an element has a tag, attributes, an optional text and
  child elements. Its XPath understands one form only, a tag name, which
  selects the children with that tag. As in lxml, neither an element nor
  the list an XPath query returns has an attribute \<open>children\<close>: reading it
  raises \<open>AttributeError\<close>. Iterating an element runs through its child
  elements. What \<open>tostring\<close> does with a list of matches is left open: it
  is the argument \<open>ts\<close>.
\<close>

datatype xml =
  Elem (tag: string) (attrib: "(string \<times> string) list") (elem_text: "string option")
    (kids: "xml list")

fun text_content :: "xml \<Rightarrow> string" where
  "text_content (Elem tg as tx ks) =
     (case tx of None \<Rightarrow> [] | Some s \<Rightarrow> s) @ concat (map text_content ks)"

definition tree_lib :: "(xml list \<Rightarrow> error + string) \<Rightarrow> xml xml_lib" where
  "tree_lib ts =
     \<lparr> lib_xpath = (\<lambda>n p. filter (\<lambda>k. tag k = p) (kids n)),
       lib_children = (\<lambda>x. Inl AttributeError),
       lib_iter = kids,
       lib_text = elem_text,
       lib_get = (\<lambda>n a. map_of (attrib n) a),
       lib_tostring = (\<lambda>x. case x of Element n \<Rightarrow> Inr (text_content n) | Matches ns \<Rightarrow> ts ns) \<rparr>"

text \<open>\<open>etree.tostring\<close> of lxml refuses a list with a \<open>TypeError\<close>.\<close>

definition lxml_lib :: "xml xml_lib" where
  "lxml_lib = tree_lib (\<lambda>ns. Inl TypeError)"

text \<open>
  A document with one paragraph and its \<open>doc\<close> element, a node with two
  \<open>p\<close> children of which only the first has a \<open>class\<close>, a tokenizer that
  returns the stripped text as one sentence, and a few rules.
\<close>

definition hello_doc :: xml where
  "hello_doc =
     Elem ''root'' [] None
       [Elem ''doc'' [] None [Elem ''p'' [] (Some ''Hello world.'') []]]"

definition doc_element :: xml where
  "doc_element = Elem ''doc'' [] None [Elem ''p'' [] (Some ''Hello world.'') []]"

definition two_p :: xml where
  "two_p =
     Elem ''d'' [] None
       [Elem ''p'' [(''class'', ''a b'')] (Some ''a'') [], Elem ''p'' [] (Some ''b'') []]"

definition whole_text :: tokenizer where
  "whole_text s = Inr [strip s]"

definition sentence_block :: docstructure where
  "sentence_block = Structure (Some ''sentenceBlock'') (Some ['''']) (Present []) JNull"

definition paragraph_rule :: docstructure where
  "paragraph_rule = Structure (Some ''paragraph'') (Some [''p'']) (Present []) JNull"

text \<open>
  The grammar of the specification's end-to-end scenario, with the XPath
  \<open>doc\<close> for the \<open>doc\<close> child of the root.
\<close>

definition scenario_rule :: docstructure where
  "scenario_rule =
     Structure (Some ''doc'') (Some [''doc'']) Absent
       (Present [Structure (Some ''sentence'') (Some [''p'']) Absent Absent])"

definition class_rule :: metadata_spec where
  "class_rule =
     \<lparr> spec_xpaths = Present [''p''], spec_attr = Present ''class'', spec_propertyName = Some ''kind'' \<rparr>"

text \<open>
  An environment for concrete runs of the processor: the ledger of the
  specification, a directory listing \<open>files\<close>, an extractor and a parser
  that return, and the documents \<open>docs\<close> in the database. Its \<open>join\<close> puts a
  slash between its arguments. Its \<open>splitext\<close> is that of \<open>posixpath\<close>: the
  extension starts at the last dot of the last path component, unless only
  dots stand before that dot in the component.
\<close>

definition posix_splitext :: "string \<Rightarrow> string \<times> string" where
  "posix_splitext p =
     (let rbase = takeWhile (\<lambda>c. c \<noteq> CHR ''/'') (rev p);
          rext = takeWhile (\<lambda>c. c \<noteq> CHR ''.'') rbase;
          rstem = drop (Suc (length rext)) rbase
      in if CHR ''.'' \<in> set rbase \<and> \<not> list_all (\<lambda>c. c = CHR ''.'') rstem
         then (take (length p - Suc (length rext)) p, drop (length p - Suc (length rext)) p)
         else (p, []))"

definition run_env :: "string list \<Rightarrow> int list \<Rightarrow> (string \<Rightarrow> string option) env" where
  "run_env files docs =
     \<lparr> logger_get = spec_get,
       logger_log = spec_log,
       listdir = (\<lambda>d. files),
       splitext = posix_splitext,
       path_join = (\<lambda>d f. d @ ''/'' @ f),
       structure_extractor = (\<lambda>f. Inr (\<lambda>path. None)),
       query_all = docs,
       parse_document = (\<lambda>d. None),
       database_reset = (\<lambda>st. st\<lparr>ledger := Map.empty\<rparr>),
       counter_count = (\<lambda>st. (None, st)),
       GRAMMATICAL_PROCESSING = True,
       WORD_TO_WORD_SIMILARITY = False,
       PART_OF_SPEECH_TAGGING = False \<rparr>"

definition start :: "(string \<times> string) list \<Rightarrow> (string \<Rightarrow> string option) pstate" where
  "start entries = \<lparr> ledger = map_of entries, extracted = [], parsed_documents = [] \<rparr>"

definition two_classes :: xml where
  "two_classes =
     Elem ''d'' [] None
       [Elem ''p'' [(''class'', ''a b'')] (Some ''a'') [],
        Elem ''p'' [(''class'', ''c'')] (Some ''b'') []]"

text \<open>A ledger in which every stage flag is \<open>true\<close>.\<close>

definition all_done :: "(string \<times> string) list" where
  "all_done =
     [(''finished_recording_text_and_metadata'', ''true''),
      (''finished_grammatical_processing'', ''true''),
      (''word_counts_done'', ''true''),
      (''tfidf_done'', ''true''),
      (''word_similarity_calculations_done'', ''true'')]"

section \<open>Notions used in the statements\<close>

text \<open>
  Two abbreviations for what the two branches of \<open>get_xpath_attribute\<close> work
  on: the nodes an XPath entry of a metadata rule stands for (the node
  itself for a blank entry, the matches of the query otherwise), and the
  pieces of the attribute \<open>a\<close> of a node, none for a node without it.
\<close>

definition metadata_nodes :: "'n xml_lib \<Rightarrow> 'n \<Rightarrow> string \<Rightarrow> 'n list" where
  "metadata_nodes L node xpath_pattern =
     (if strip xpath_pattern = [] then [node] else lib_xpath L node xpath_pattern)"

definition attribute_pieces :: "'n xml_lib \<Rightarrow> string \<Rightarrow> 'n \<Rightarrow> string list" where
  "attribute_pieces L a m = (case lib_get L m a of None \<Rightarrow> [] | Some v \<Rightarrow> split_sp v)"

section \<open>Properties of the extractor\<close>

lemma strip_blank: "set x \<subseteq> set whitespace \<Longrightarrow> strip x = []"
  by (auto simp: strip_def is_space_def dest: set_dropWhileD)

lemma strip_p: "strip ''p'' = ''p''" "strip ''q'' = ''q''"
  by (simp_all add: strip_def is_space_def whitespace_def)

lemma split_sp_not_Nil: "split_sp s \<noteq> []"
  by (induction s) (auto split: list.splits)

lemmas run_defs = lxml_lib_def tree_lib_def whole_text_def hello_doc_def doc_element_def
  two_p_def sentence_block_def paragraph_rule_def scenario_rule_def class_rule_def
  get_nodes_from_xpath_def strip_def subscript_def get_metadata_def get_sentences_def
  iterate_def is_space_def whitespace_def get_xpath_text_def get_xpath_attribute_def
  attribute_values_def

text \<open>
  Claim C1 says that a child rule whose \<open>structureName\<close> contains \<open>sentence\<close>
  contributes only Sentences to the Unit under construction and never nested
  Units, and that every other child rule contributes only nested Units and
  never Sentences. The code does not do so, for two reasons.

  The loop over the child rules dispatches the other way round, for every
  library and every tokenizer: a child rule whose name contains \<open>sentence\<close>
  is handed to \<open>extract_unit_information\<close> and what comes back is added to
  the units, the sentences staying as they were; every other child rule is
  handed to \<open>get_sentences\<close> and what comes back replaces the sentences,
  the units staying as they were.

  And with a library in which reading \<open>children\<close> raises, as it does for
  the nodes and lists of lxml, \<open>extract_unit_information\<close> raises
  \<open>AttributeError\<close> for every rule that has a name and at least one XPath,
  before it looks at any child rule: no Unit is built and no rule
  contributes anything.
\<close>

theorem child_rules_are_dispatched_the_other_way:
  "(structureName c = Some ct \<and> contains ''sentence'' ct \<longrightarrow>
      extract_unit_children L t [c] node (sents, children) =
        (case extract_unit_information L t c node of
           Inl e \<Rightarrow> Inl e
         | Inr child_units \<Rightarrow> Inr (sents, children @ child_units)))
   \<and> (structureName c = Some ct \<and> \<not> contains ''sentence'' ct \<longrightarrow>
      extract_unit_children L t [c] node (sents, children) =
        (case get_sentences L t c node True of
           Inl e \<Rightarrow> Inl e
         | Inr sents' \<Rightarrow> Inr (sents', children)))
   \<and> ((\<forall>x. lib_children L x = Inl AttributeError) \<longrightarrow>
      extract_unit_information L t (Structure (Some nm) (Some (p # ps)) md us) node
        = Inl AttributeError)"
  by (auto split: sum.splits)

theorem child_rules_are_dispatched_the_other_way_witness:
  "extract_unit_information lxml_lib whole_text scenario_rule hello_doc = Inl AttributeError
   \<and> extract_unit_children lxml_lib whole_text [sentence_block] doc_element ([], [])
       = Inl AttributeError
   \<and> extract_unit_children lxml_lib whole_text [paragraph_rule] doc_element ([], [])
       = Inr ([Sentence ''Hello world.'' [[]]], [])"
  using child_rules_are_dispatched_the_other_way
      [where c = sentence_block and ct = "''sentenceBlock''" and L = lxml_lib
         and t = whole_text and node = doc_element and sents = "[]" and children = "[]"]
    child_rules_are_dispatched_the_other_way
      [where c = paragraph_rule and ct = "''paragraph''" and L = lxml_lib
         and t = whole_text and node = doc_element and sents = "[]" and children = "[]"]
    child_rules_are_dispatched_the_other_way
      [where L = lxml_lib and t = whole_text and node = hello_doc and nm = "''doc''"
         and p = "''doc''" and ps = "[]" and md = Absent
         and us = "Present [Structure (Some ''sentence'') (Some [''p'']) Absent Absent]"]
  by (simp add: run_defs)

text \<open>
  Claim C2 says that a structure rule without the optional \<open>metadata\<close> or
  \<open>units\<close> entry is treated as having no such rules and that extraction
  completes normally. In the code the lookup of the missing key raises
  \<open>KeyError\<close>, which the \<open>except NameError\<close> around it does not catch:
  \<open>get_sentences\<close> raises for every rule without \<open>metadata\<close>, whatever the
  library, the node and the flag, and the loop of \<open>extract_unit_information\<close>
  over the nodes raises at the first node, whatever the library and the
  node, for a missing \<open>metadata\<close> and for a missing \<open>units\<close> alike.
\<close>

theorem absent_optional_entry_raises_KeyError:
  "get_sentences L t (Structure nm (Some ps) Absent us) n b = Inl KeyError
   \<and> extract_unit_nodes L t (Structure nm xs Absent us) struc_name (node # rest) units
       = Inl KeyError
   \<and> extract_unit_nodes L t (Structure nm xs (Present []) Absent) struc_name (node # rest) units
       = Inl KeyError"
  by (simp add: get_sentences_def subscript_def get_metadata_def)

text \<open>
  Claim C5 says that a metadata rule without \<open>attr\<close> and with a non-empty
  XPath yields, for each matched node, that node's own trimmed text. In the
  code the rule without an \<open>attr\<close> entry never gets that far: reading the
  missing key raises \<open>KeyError\<close>. And \<open>get_xpath_text\<close> itself serialises
  the whole list of matches once per match: on the two matches of \<open>two_p\<close>,
  with the texts \<open>a\<close> and \<open>b\<close>, it returns whatever \<open>tostring\<close> makes of the
  list, twice, or the error of that call (a \<open>TypeError\<close> with lxml), and
  never the two texts \<open>a\<close> and \<open>b\<close>.
\<close>

theorem get_xpath_text_serialises_the_match_list:
  "get_xpath_text (tree_lib ts) ''p'' two_p =
     (case ts (kids two_p) of
        Inl e \<Rightarrow> Inl e
      | Inr s \<Rightarrow> if strip s = [] then Inr [] else Inr [strip s, strip s])
   \<and> get_xpath_text (tree_lib ts) ''p'' two_p \<noteq> Inr [''a'', ''b'']
   \<and> get_xpath_text lxml_lib ''p'' two_p = Inl TypeError
   \<and> get_metadata lxml_lib
        (Some [\<lparr>spec_xpaths = Present [''p''], spec_attr = Absent, spec_propertyName = Some ''t''\<rparr>])
        two_p = Inl KeyError"
  by (auto simp: lxml_lib_def tree_lib_def two_p_def get_xpath_text_def get_metadata_def
       subscript_def Let_def strip_p split: sum.splits)

text \<open>
  Claim C9: for every node and every XPath entry that is empty or consists
  of whitespace only, resolving the entry gives the node itself, not an
  empty result and not an error, in unit extraction and in metadata
  extraction. \<open>get_nodes_from_xpath\<close> returns the node, and
  \<open>extract_unit_information\<close> goes on with the children of that node; the
  text of a metadata rule is the serialised node, as one value, and the
  attribute of a metadata rule is read from the node. The XPath evaluator is
  not consulted.
\<close>

theorem blank_xpath_is_the_node_itself:
  assumes "set x \<subseteq> set whitespace"
  shows "get_nodes_from_xpath L x n = Element n
     \<and> extract_unit_information L t (Structure (Some nm) (Some [x]) md us) n =
         (case lib_children L (Element n) of
            Inl e \<Rightarrow> Inl e
          | Inr cs \<Rightarrow> extract_unit_nodes L t (Structure (Some nm) (Some [x]) md us) nm cs [])
     \<and> get_xpath_text L x n =
         (case lib_tostring L (Element n) of Inl e \<Rightarrow> Inl e | Inr s \<Rightarrow> Inr [s])
     \<and> get_xpath_attribute L x a n = attribute_values L n a"
  using strip_blank [OF assms]
  by (auto simp: get_nodes_from_xpath_def get_xpath_text_def get_xpath_attribute_def
      split: sum.splits)

theorem blank_xpath_is_the_node_itself_witness:
  "set '' '' \<subseteq> set whitespace
   \<and> get_nodes_from_xpath lxml_lib '' '' hello_doc = Element hello_doc
   \<and> get_xpath_text lxml_lib '' '' hello_doc = Inr [''Hello world.'']
   \<and> get_xpath_attribute lxml_lib '' '' ''class'' hello_doc = Inl AttributeError"
  using blank_xpath_is_the_node_itself
          [of "'' ''" lxml_lib hello_doc whole_text "''doc''" JNull JNull "''class''"]
  by (simp add: whitespace_def lxml_lib_def tree_lib_def hello_doc_def attribute_values_def)

lemma get_sentences_xpaths_no_match:
  "\<forall>p\<in>set ps. iterate L (get_nodes_from_xpath L p n) = [] \<Longrightarrow>
   get_sentences_xpaths L ms n ps acc = Inr acc"
  by (induction ps arbitrary: acc) auto

lemma get_sentences_no_match:
  assumes "xpaths S = Some ps" and "metadata_rules S \<noteq> Absent"
    and "\<forall>p\<in>set ps. iterate L (get_nodes_from_xpath L p n) = []"
  shows "get_sentences L t S n False = Inr [Sentence [] []]"
  using assms
  by (cases "metadata_rules S")
     (simp_all add: get_sentences_def subscript_def get_sentences_xpaths_no_match)

text \<open>
  Claim C10 says that sentence extraction without tokenizing, for a rule
  whose XPaths match no node, returns exactly one Sentence with the empty
  text and no metadata, and never an error. The XPath \<open>q\<close> matches nothing
  in \<open>hello_doc\<close>. For the rule that has a \<open>metadata\<close> entry the code returns
  that one Sentence (as \<open>get_sentences_no_match\<close> shows for every such rule);
  for the same rule without the entry it raises \<open>KeyError\<close> before it looks
  at any node.
\<close>

theorem get_sentences_no_match_needs_metadata_entry:
  "get_sentences lxml_lib whole_text
       (Structure (Some ''sentence'') (Some [''q'']) Absent Absent) hello_doc False = Inl KeyError
   \<and> get_sentences lxml_lib whole_text
       (Structure (Some ''sentence'') (Some [''q'']) (Present []) Absent) hello_doc False
       = Inr [Sentence [] []]"
  by (simp add: run_defs)

lemma get_xpath_attribute_loop_eq:
  "get_xpath_attribute_loop L a ns vals =
     (if list_all (\<lambda>m. lib_get L m a \<noteq> None) ns
      then Inr (vals @ concat (map (attribute_pieces L a) ns))
      else Inl AttributeError)"
  by (induction ns arbitrary: vals)
     (auto simp: attribute_values_def attribute_pieces_def split_sp_not_Nil split: option.splits)

lemma get_xpath_attribute_eq:
  "get_xpath_attribute L p a n =
     (if list_all (\<lambda>m. lib_get L m a \<noteq> None) (metadata_nodes L n p)
      then Inr (concat (map (attribute_pieces L a) (metadata_nodes L n p)))
      else Inl AttributeError)"
  by (auto simp: get_xpath_attribute_def get_xpath_attribute_loop_eq metadata_nodes_def
        attribute_values_def attribute_pieces_def split_sp_not_Nil split: option.splits)

lemma get_metadata_values_eq:
  "spec_propertyName spec = Some pn \<Longrightarrow>
   get_metadata_values spec vals md = Inr (md @ map (\<lambda>v. Metadata v pn spec) vals)"
  by (induction vals arbitrary: md) auto

lemma get_metadata_xpaths_attr:
  "spec_propertyName spec = Some pn \<Longrightarrow>
   get_metadata_xpaths L n spec (Some a) ps md =
     (if list_all (\<lambda>m. lib_get L m a \<noteq> None) (concat (map (metadata_nodes L n) ps))
      then Inr (md @ map (\<lambda>v. Metadata v pn spec)
                 (concat (map (attribute_pieces L a) (concat (map (metadata_nodes L n) ps)))))
      else Inl AttributeError)"
  by (induction ps arbitrary: md) (auto simp: get_xpath_attribute_eq get_metadata_values_eq)

text \<open>
  What the code does with a metadata rule that has \<open>xpaths\<close>, \<open>attr\<close> and
  \<open>propertyName\<close>, for every library: if every node its XPaths stand for
  carries the attribute, one Metadata per piece of the attribute value
  between single spaces, in the order of the XPaths, of the nodes and of the
  pieces; if some node does not carry it, \<open>AttributeError\<close> and no Metadata.
\<close>

lemma get_metadata_attr_rule:
  assumes "spec_xpaths spec = Present ps" and "spec_attr spec = Present a"
    and "spec_propertyName spec = Some pn"
  shows "get_metadata L (Some [spec]) n =
     (if list_all (\<lambda>m. lib_get L m a \<noteq> None) (concat (map (metadata_nodes L n) ps))
      then Inr (map (\<lambda>v. Metadata v pn spec)
                 (concat (map (attribute_pieces L a) (concat (map (metadata_nodes L n) ps)))))
      else Inl AttributeError)"
  using assms by (simp add: get_metadata_def subscript_def get_metadata_xpaths_attr)

lemma get_metadata_attr_rule_two_classes:
  "get_metadata lxml_lib (Some [class_rule]) two_classes =
     Inr [Metadata ''a'' ''kind'' class_rule, Metadata ''b'' ''kind'' class_rule,
          Metadata ''c'' ''kind'' class_rule]"
  using get_metadata_attr_rule
          [of class_rule "[''p'']" "''class''" "''kind''" lxml_lib two_classes]
  by (simp add: class_rule_def lxml_lib_def tree_lib_def two_classes_def metadata_nodes_def
       attribute_pieces_def strip_p)

text \<open>
  Claim C6 says that, for a metadata rule with \<open>attr\<close>, a matched node
  without the attribute is skipped silently and the Metadata of the other
  nodes are emitted, without an error. The code does not skip:
  \<open>node.get(attribute)\<close> is \<open>None\<close> for that node, \<open>None.split\<close> raises
  \<open>AttributeError\<close> before the guard on the number of values is reached,
  and nothing catches it. On \<open>two_p\<close>, whose first \<open>p\<close> has the class \<open>a b\<close>
  and whose second has none, extraction raises and the Metadata \<open>a\<close> and
  \<open>b\<close> of the first node are lost with it.
\<close>

theorem missing_attribute_raises_on_two_p:
  "get_metadata lxml_lib (Some [class_rule]) two_p = Inl AttributeError"
  by (simp add: run_defs)

section \<open>Properties of the collection processor\<close>

lemma startswith_iff: "startswith sub s = (\<exists>r. s = sub @ r)"
  by (induction sub s rule: startswith.induct) auto

lemma lower_true: "lower (''true'' @ r) = ''true'' @ lower r"
  by (simp add: lower_def lower_char_def)

lemma contains_true_lower: "contains ''true'' s \<Longrightarrow> contains ''true'' (lower s)"
proof (induction s)
  case Nil
  then show ?case by simp
next
  case (Cons c cs)
  from Cons.prems have "startswith ''true'' (c # cs) \<or> contains ''true'' cs"
    by simp
  then show ?case
  proof
    assume "startswith ''true'' (c # cs)"
    then obtain r where r: "c # cs = ''true'' @ r"
      unfolding startswith_iff by blast
    have "startswith ''true'' (lower (''true'' @ r))"
      unfolding lower_true startswith_iff by blast
    with r have "startswith ''true'' (lower (c # cs))" by simp
    then show ?thesis by (simp add: lower_def)
  next
    assume "contains ''true'' cs"
    then have "contains ''true'' (lower cs)" by (rule Cons.IH)
    then show ?thesis by (simp add: lower_def)
  qed
qed




lemma str_int_small: "str_int 1 = ''1''" "str_int 2 = ''2''" "str_int 3 = ''3''"
  by (simp_all add: str_int_def str_nat.simps)


lemma log_to_extracted: "extracted (log_to E k v mode st) = extracted st"
  by (simp add: log_to_def)










text \<open>
  Claim C4: with the stored value \<open>[1][2]\<close> under \<open>text_and_metadata_recorded\<close>
  and exactly three files with the extension, a run of the extraction stage
  hands only the third file to the extractor, and neither the first nor the
  second. The paths handed to the extractor by the run are the third file
  alone (none when its name starts with a dot, a hidden file, and none when
  the extractor could not be built), whatever the extractor then does and
  whatever the logger does with what it is given.
\<close>

theorem resume_extracts_only_the_third_file:
  assumes "logger_get E (ledger st) ''text_and_metadata_recorded'' = ''[1][2]''"
    and "filter (\<lambda>f. lower (snd (splitext E f)) = lower filename_extension)
           (listdir E collection_dir) = [f1, f2, f3]"
  shows "extracted (snd (extract_record_metadata E collection_dir docstruc_filename
                           filename_extension st)) =
         extracted st @
           (if \<not> isl (structure_extractor E docstruc_filename) \<and> f3 \<noteq> [] \<and> hd f3 \<noteq> CHR ''.''
            then [path_join E collection_dir f3] else [])"
  using assms
  by (auto simp: extract_record_metadata_def str_int_small log_to_extracted Let_def
       split: list.splits option.splits prod.splits sum.splits)

theorem resume_extracts_only_the_third_file_witness:
  "extracted (snd (extract_record_metadata
       (run_env [''a.xml'', ''b.xml'', ''notes.txt'', ''c.XML''] [])
       ''corpus'' ''structure.json'' ''.xml'' (start [(''text_and_metadata_recorded'', ''[1][2]'')])))
     = [''corpus/c.XML'']"
  using resume_extracts_only_the_third_file
     [of "run_env [''a.xml'', ''b.xml'', ''notes.txt'', ''c.XML''] []"
      "start [(''text_and_metadata_recorded'', ''[1][2]'')]" "''.xml''" "''corpus''"
      "''a.xml''" "''b.xml''" "''c.XML''" "''structure.json''"]
  by (simp add: run_env_def start_def spec_get_def posix_splitext_def lower_def lower_char_def
       Let_def)






text \<open>
  Claim C8: when the stored value of every stage flag contains \<open>true\<close> and
  \<open>start_from_scratch\<close> is false, a run of \<open>process\<close> extracts nothing,
  parses nothing and leaves the ledger as it was: it returns normally in the
  state it started from, whatever the configuration.
\<close>

theorem process_all_flags_true_is_noop:
  assumes "contains ''true'' (logger_get E (ledger st) ''finished_recording_text_and_metadata'')"
    and "contains ''true'' (logger_get E (ledger st) ''finished_grammatical_processing'')"
    and "contains ''true'' (logger_get E (ledger st) ''word_counts_done'')"
    and "contains ''true'' (logger_get E (ledger st) ''tfidf_done'')"
    and "contains ''true'' (logger_get E (ledger st) ''word_similarity_calculations_done'')"
  shows "process E collection_dir docstruc_filename filename_extension False st = (None, st)"
  using assms(1) contains_true_lower [OF assms(2)] contains_true_lower [OF assms(3)]
  by (simp add: process_def)

theorem process_all_flags_true_is_noop_witness:
  "process (run_env [''a.xml''] [1]) ''corpus'' ''structure.json'' ''.xml'' False (start all_done)
     = (None, start all_done)"
  using process_all_flags_true_is_noop
          [of "run_env [''a.xml''] [1]" "start all_done" "''corpus''" "''structure.json''" "''.xml''"]
  by (simp add: run_env_def start_def all_done_def spec_get_def)

end
